theory Spec2Isabelle
  imports Complex_Main "HOL-Library.Sublist"
begin

section \<open>JavaScript values and exceptions\<close>

text \<open>
  The message endpoint works on whatever \<^verbatim>\<open>express.json()\<close> parsed, so the model has
  a type of JavaScript values. \<open>Undefined\<close> is what reading an absent property gives.
  Numbers are restricted to the integers that JavaScript holds exactly, of magnitude
  below \<open>2 ^ 53\<close> (ids, codes and quantities); an object is the list of its properties
  in insertion order.
\<close>

datatype jsval =
    Undefined
  | Null
  | Bool bool
  | Num int
  | Str string
  | Arr "jsval list"
  | Obj "(string \<times> jsval) list"

text \<open>
  A thrown value. The first three are instances of \<^verbatim>\<open>Error\<close> and carry their
  \<^verbatim>\<open>message\<close>; \<open>Thrown s\<close> is any other thrown value, kept as \<^verbatim>\<open>String(value)\<close>.
\<close>

datatype js_error =
    Error string
  | TypeError string
  | SyntaxError string
  | Thrown string

fun instanceof_Error :: "js_error \<Rightarrow> bool" where
  "instanceof_Error (Thrown _) = False"
| "instanceof_Error _ = True"

fun error_text :: "js_error \<Rightarrow> string" where
  "error_text (Error m) = m"
| "error_text (TypeError m) = m"
| "error_text (SyntaxError m) = m"
| "error_text (Thrown s) = s"

text \<open>Truthiness, as \<^verbatim>\<open>!x\<close> and \<^verbatim>\<open>x || y\<close> test it.\<close>

fun truthy :: "jsval \<Rightarrow> bool" where
  "truthy Undefined = False"
| "truthy Null = False"
| "truthy (Bool b) = b"
| "truthy (Num n) = (n \<noteq> 0)"
| "truthy (Str s) = (s \<noteq> [])"
| "truthy (Arr _) = True"
| "truthy (Obj _) = True"

definition js_or :: "jsval \<Rightarrow> jsval \<Rightarrow> jsval" where
  "js_or a b = (if truthy a then a else b)"

text \<open>
  \<^verbatim>\<open>x.k\<close>: reading a property of \<^verbatim>\<open>undefined\<close> or \<^verbatim>\<open>null\<close> throws a TypeError; an
  object gives the property or \<^verbatim>\<open>undefined\<close>; the other values have none of the
  properties the server reads (\<^verbatim>\<open>method\<close>, \<^verbatim>\<open>id\<close>, \<^verbatim>\<open>params\<close>, \<^verbatim>\<open>name\<close>,
  \<^verbatim>\<open>arguments\<close>, \<^verbatim>\<open>query\<close>).
\<close>

fun get_prop :: "jsval \<Rightarrow> string \<Rightarrow> js_error + jsval" where
  "get_prop Undefined k = Inl (TypeError ''Cannot read properties of undefined'')"
| "get_prop Null k = Inl (TypeError ''Cannot read properties of null'')"
| "get_prop (Obj kvs) k = Inr (case map_of kvs k of None \<Rightarrow> Undefined | Some v \<Rightarrow> v)"
| "get_prop _ k = Inr Undefined"

text \<open>\<^verbatim>\<open>x?.k\<close>: as \<^verbatim>\<open>x.k\<close>, but \<^verbatim>\<open>undefined\<close> where \<^verbatim>\<open>x\<close> is nullish.\<close>

definition prop_opt :: "jsval \<Rightarrow> string \<Rightarrow> jsval" where
  "prop_opt x k = (case get_prop x k of Inl _ \<Rightarrow> Undefined | Inr v \<Rightarrow> v)"

text \<open>\<^verbatim>\<open>k in x\<close>: throws on a primitive; no array has the key \<^verbatim>\<open>id\<close>.\<close>

fun js_in :: "string \<Rightarrow> jsval \<Rightarrow> js_error + bool" where
  "js_in k (Obj kvs) = Inr (k \<in> set (map fst kvs))"
| "js_in k (Arr _) = Inr False"
| "js_in k _ = Inl (TypeError ''Cannot use in operator'')"

text \<open>
  Decimal rendering of a number, for template strings: all the digits, which is what
  JavaScript prints for an integer of magnitude below \<open>10 ^ 21\<close> (beyond that it
  prints an exponent, and such numbers are outside the model).
\<close>

fun digit_char :: "nat \<Rightarrow> char" where
  "digit_char n = char_of (48 + n)"

fun show_nat :: "nat \<Rightarrow> string" where
  "show_nat n = (if n < 10 then [digit_char n] else show_nat (n div 10) @ [digit_char (n mod 10)])"

definition show_int :: "int \<Rightarrow> string" where
  "show_int i = (if i < 0 then CHR ''-'' # show_nat (nat (- i)) else show_nat (nat i))"

fun join_comma :: "string list \<Rightarrow> string" where
  "join_comma [] = []"
| "join_comma [s] = s"
| "join_comma (s # t # ss) = s @ '','' @ join_comma (t # ss)"

text \<open>\<^verbatim>\<open>String(x)\<close>, as a template string applies it.\<close>

fun to_string :: "jsval \<Rightarrow> string" where
  "to_string Undefined = ''undefined''"
| "to_string Null = ''null''"
| "to_string (Bool b) = (if b then ''true'' else ''false'')"
| "to_string (Num n) = show_int n"
| "to_string (Str s) = s"
| "to_string (Arr xs) =
     join_comma (map (\<lambda>x. if x = Undefined \<or> x = Null then [] else to_string x) xs)"
| "to_string (Obj _) = ''[object Object]''"

section \<open>Event-stream frames\<close>

abbreviation LF :: char where
  "LF \<equiv> CHR 0x0A"

text \<open>
  The response side of one open stream: what Node reports as \<^verbatim>\<open>res.writable\<close>, and
  the chunks passed to \<^verbatim>\<open>res.write\<close>, oldest first.
\<close>

record sse_res =
  writable :: bool
  written :: "string list"

definition res_write :: "string \<Rightarrow> sse_res \<Rightarrow> sse_res" where
  "res_write chunk r = r\<lparr>written := written r @ [chunk]\<rparr>"

definition connected_frame :: string where
  "connected_frame = '': connected'' @ [LF, LF]"

definition ping_frame :: string where
  "ping_frame = '': ping'' @ [LF, LF]"

definition endpoint_event_line :: string where
  "endpoint_event_line = ''event: endpoint'' @ [LF]"

definition endpoint_data_line :: "string \<Rightarrow> string" where
  "endpoint_data_line endpoint = ''data: '' @ endpoint @ [LF, LF]"

text \<open>
  \<^verbatim>\<open>sendSSEMessage\<close> (the later snapshot of server.ts; the earlier one wrote the
  \<^verbatim>\<open>data:\<close> line alone). \<^verbatim>\<open>JSON.stringify\<close> is the parameter \<open>stringify\<close>; the
  flush that follows the write changes nothing that is modelled.
\<close>

definition message_frame :: "(jsval \<Rightarrow> string) \<Rightarrow> jsval \<Rightarrow> string" where
  "message_frame stringify data = ''event: message'' @ [LF] @ ''data: '' @ stringify data @ [LF, LF]"

definition sendSSEMessage :: "(jsval \<Rightarrow> string) \<Rightarrow> sse_res \<Rightarrow> jsval \<Rightarrow> sse_res" where
  "sendSSEMessage stringify r data = res_write (message_frame stringify data) r"




section \<open>HTTP requests, responses and the authentication middleware\<close>

text \<open>
  The parts of an Express request that server.ts reads. A header or query parameter
  that is absent is \<open>None\<close>.
\<close>

record request =
  authorization :: "string option"
  query_token :: "string option"
  x_forwarded_proto :: "string option"
  x_forwarded_host :: "string option"
  host_header :: "string option"
  body :: jsval

text \<open>
  What the handler answers on the POST or GET itself: the status, and the JSON body
  (\<open>None\<close> for \<^verbatim>\<open>.end()\<close> and for the event stream).
\<close>

record http_response =
  status :: nat
  payload :: "jsval option"

text \<open>\<^verbatim>\<open>a || b\<close> on a string that may be undefined: the empty string is falsy.\<close>

definition str_truthy :: "string option \<Rightarrow> bool" where
  "str_truthy a = (case a of None \<Rightarrow> False | Some s \<Rightarrow> s \<noteq> [])"

definition str_or :: "string option \<Rightarrow> string option \<Rightarrow> string option" where
  "str_or a b = (if str_truthy a then a else b)"







section \<open>The active connections\<close>

text \<open>
  \<^verbatim>\<open>activeConnections\<close> is a JavaScript \<^verbatim>\<open>Map\<close>: it iterates in insertion order,
  \<^verbatim>\<open>set\<close> on a key already there keeps its place, and \<^verbatim>\<open>delete\<close> removes the entry.
\<close>

record SSEConnection =
  res :: sse_res
  sessionId :: string

type_synonym connections = "(string \<times> SSEConnection) list"

fun map_set :: "'k \<Rightarrow> 'v \<Rightarrow> ('k \<times> 'v) list \<Rightarrow> ('k \<times> 'v) list" where
  "map_set k v [] = [(k, v)]"
| "map_set k v ((k', v') # m) = (if k = k' then (k, v) # m else (k', v') # map_set k v m)"

definition map_delete :: "'k \<Rightarrow> ('k \<times> 'v) list \<Rightarrow> ('k \<times> 'v) list" where
  "map_delete k m = filter (\<lambda>e. fst e \<noteq> k) m"

definition map_values :: "('k \<times> 'v) list \<Rightarrow> 'v list" where
  "map_values m = map snd m"

text \<open>A write through the \<^verbatim>\<open>res\<close> a connection holds reaches the stream of that session.\<close>

definition on_res :: "string \<Rightarrow> (sse_res \<Rightarrow> sse_res) \<Rightarrow> connections \<Rightarrow> connections" where
  "on_res sid f m = map (\<lambda>(k, c). if k = sid then (k, c\<lparr>res := f (res c)\<rparr>) else (k, c)) m"

text \<open>
  The server's state: the connections, and the state \<open>world\<close> of the browser that the
  tools drive.
\<close>

record 'w server =
  activeConnections :: connections
  world :: 'w

text \<open>
  What the handlers call and this file does not define: \<^verbatim>\<open>JSON.stringify\<close> with and
  without indentation, and the tools of amazon.ts, browser.ts and the session manager,
  each a function of the browser's state that returns or throws.
\<close>

record 'w runtime =
  stringify :: "jsval \<Rightarrow> string"
  stringify_pretty :: "jsval \<Rightarrow> string"
  run_searchProducts :: "jsval \<Rightarrow> 'w \<Rightarrow> (js_error + jsval) \<times> 'w"
  run_addToCart :: "jsval \<Rightarrow> 'w \<Rightarrow> (js_error + jsval) \<times> 'w"
  run_getCart :: "'w \<Rightarrow> (js_error + jsval) \<times> 'w"
  run_checkLoginStatus :: "'w \<Rightarrow> (js_error + jsval) \<times> 'w"
  run_saveSession :: "'w \<Rightarrow> (js_error + unit) \<times> 'w"

section \<open>The stream endpoint\<close>

definition opt_to_string :: "string option \<Rightarrow> string" where
  "opt_to_string a = (case a of None \<Rightarrow> ''undefined'' | Some s \<Rightarrow> s)"

definition endpoint_url :: "request \<Rightarrow> string" where
  "endpoint_url req =
     (let protocol = str_or (x_forwarded_proto req) (Some ''http'');
          host = str_or (x_forwarded_host req) (host_header req)
      in opt_to_string protocol @ ''://'' @ opt_to_string host @ ''/message'')"

text \<open>
  \<^verbatim>\<open>app.get('/sse')\<close> after the middleware. \<open>sid\<close> is the session id the handler
  builds from the clock and a random number.
\<close>

definition sse_get :: "string \<Rightarrow> request \<Rightarrow> 'w server \<Rightarrow> http_response \<times> 'w server" where
  "sse_get sid req s =
     (let r0 = \<lparr>writable = True, written = []\<rparr>;
          r1 = res_write connected_frame r0;
          r2 = res_write endpoint_event_line r1;
          r3 = res_write (endpoint_data_line (endpoint_url req)) r2
      in (\<lparr>status = 200, payload = None\<rparr>,
          s\<lparr>activeConnections := map_set sid \<lparr>res = r3, sessionId = sid\<rparr> (activeConnections s)\<rparr>))"

text \<open>One tick of the heartbeat of session \<open>sid\<close>.\<close>

definition heartbeat :: "string \<Rightarrow> 'w server \<Rightarrow> 'w server" where
  "heartbeat sid s =
     (case map_of (activeConnections s) sid of
        None \<Rightarrow> s
      | Some c \<Rightarrow>
          if writable (res c)
          then s\<lparr>activeConnections := on_res sid (res_write ping_frame) (activeConnections s)\<rparr>
          else s\<lparr>activeConnections := map_delete sid (activeConnections s)\<rparr>)"

text \<open>The \<^verbatim>\<open>close\<close> and \<^verbatim>\<open>error\<close> events of session \<open>sid\<close>.\<close>

definition on_close :: "string \<Rightarrow> 'w server \<Rightarrow> 'w server" where
  "on_close sid s = s\<lparr>activeConnections := map_delete sid (activeConnections s)\<rparr>"

section \<open>The message endpoint\<close>

text \<open>The bodies the endpoint answers the POST with.\<close>

definition invalid_request :: http_response where
  "invalid_request =
     \<lparr>status = 400,
      payload = Some (Obj [(''jsonrpc'', Str ''2.0''),
                           (''error'', Obj [(''code'', Num (- 32600)), (''message'', Str ''Invalid Request'')]),
                           (''id'', Null)])\<rparr>"

definition no_active_connection :: "jsval \<Rightarrow> http_response" where
  "no_active_connection jsonrpcRequest =
     \<lparr>status = 503,
      payload = Some (Obj [(''jsonrpc'', Str ''2.0''),
                           (''error'', Obj [(''code'', Num (- 32000)), (''message'', Str ''No active connection'')]),
                           (''id'', js_or (prop_opt jsonrpcRequest ''id'') Null)])\<rparr>"

definition connection_closed :: "jsval \<Rightarrow> http_response" where
  "connection_closed jsonrpcRequest =
     \<lparr>status = 503,
      payload = Some (Obj [(''jsonrpc'', Str ''2.0''),
                           (''error'', Obj [(''code'', Num (- 32000)), (''message'', Str ''SSE connection closed'')]),
                           (''id'', js_or (prop_opt jsonrpcRequest ''id'') Null)])\<rparr>"

definition internal_error :: "jsval \<Rightarrow> http_response" where
  "internal_error jsonrpcRequest =
     \<lparr>status = 500,
      payload = Some (Obj [(''jsonrpc'', Str ''2.0''),
                           (''error'', Obj [(''code'', Num (- 32603)), (''message'', Str ''Internal error'')]),
                           (''id'', js_or (prop_opt jsonrpcRequest ''id'') Null)])\<rparr>"

definition accepted :: http_response where
  "accepted = \<lparr>status = 202, payload = None\<rparr>"

text \<open>The envelopes the endpoint sends on the stream.\<close>

definition initialize_response :: "jsval \<Rightarrow> jsval" where
  "initialize_response rid =
     Obj [(''jsonrpc'', Str ''2.0''),
          (''id'', rid),
          (''result'', Obj [(''protocolVersion'', Str ''2024-11-05''),
                            (''capabilities'', Obj [(''tools'', Obj []), (''resources'', Obj []), (''prompts'', Obj [])]),
                            (''serverInfo'', Obj [(''name'', Str ''amazon-cart-server''), (''version'', Str ''1.0.0'')])])]"

definition tool_entry :: "string \<Rightarrow> string \<Rightarrow> (string \<times> jsval) list \<Rightarrow> jsval" where
  "tool_entry n d schema = Obj [(''name'', Str n), (''description'', Str d), (''inputSchema'', Obj schema)]"

definition tools_catalogue :: "jsval list" where
  "tools_catalogue =
     [tool_entry ''search_amazon'' ''Search for products on Amazon''
        [(''type'', Str ''object''),
         (''properties'', Obj [(''query'', Obj [(''type'', Str ''string''),
                                                (''description'', Str ''Search query for Amazon products'')])]),
         (''required'', Arr [Str ''query''])],
      tool_entry ''add_to_cart'' ''Add a product to Amazon cart''
        [(''type'', Str ''object''),
         (''properties'', Obj [(''query'', Obj [(''type'', Str ''string''),
                                                (''description'', Str ''Product name to search and add'')]),
                               (''asin'', Obj [(''type'', Str ''string''),
                                               (''description'', Str ''Amazon ASIN (product ID) - use this if known'')]),
                               (''quantity'', Obj [(''type'', Str ''number''),
                                                   (''description'', Str ''Quantity to add (default: 1)''),
                                                   (''default'', Num 1)])])],
      tool_entry ''view_cart'' ''View current Amazon cart contents''
        [(''type'', Str ''object''), (''properties'', Obj [])],
      tool_entry ''check_login'' ''Check if logged into Amazon''
        [(''type'', Str ''object''), (''properties'', Obj [])],
      tool_entry ''save_session''
        ''(Optional) Manually trigger session save. Sessions are automatically saved periodically, after operations, and on shutdown, so this is typically not needed.''
        [(''type'', Str ''object''), (''properties'', Obj [])]]"

definition tools_list_response :: "jsval \<Rightarrow> jsval" where
  "tools_list_response rid =
     Obj [(''jsonrpc'', Str ''2.0''), (''id'', rid), (''result'', Obj [(''tools'', Arr tools_catalogue)])]"

definition tool_result_response :: "(jsval \<Rightarrow> string) \<Rightarrow> jsval \<Rightarrow> jsval \<Rightarrow> jsval" where
  "tool_result_response pretty rid toolResult =
     Obj [(''jsonrpc'', Str ''2.0''),
          (''id'', rid),
          (''result'', Obj [(''content'', Arr [Obj [(''type'', Str ''text''),
                                                    (''text'', Str (pretty toolResult))]])])]"

definition tool_error_response :: "jsval \<Rightarrow> js_error \<Rightarrow> jsval" where
  "tool_error_response rid err =
     Obj [(''jsonrpc'', Str ''2.0''),
          (''id'', rid),
          (''error'', Obj [(''code'', Num (- 32603)),
                           (''message'', Str (if instanceof_Error err then error_text err
                                              else ''Tool execution failed''))])]"

definition method_not_found :: "jsval \<Rightarrow> jsval \<Rightarrow> jsval" where
  "method_not_found rid method =
     Obj [(''jsonrpc'', Str ''2.0''),
          (''id'', rid),
          (''error'', Obj [(''code'', Num (- 32601)),
                           (''message'', Str (''Method not found: '' @ to_string method))])]"

definition session_saved :: jsval where
  "session_saved =
     Obj [(''success'', Bool True),
          (''message'', Str ''Amazon session saved successfully. Your login will persist across server restarts.'')]"

text \<open>The \<^verbatim>\<open>switch (toolName)\<close> of the endpoint: the tool's result, or what it throws.\<close>

definition call_tool :: "'w runtime \<Rightarrow> jsval \<Rightarrow> jsval \<Rightarrow> 'w \<Rightarrow> (js_error + jsval) \<times> 'w" where
  "call_tool rt toolName toolArgs w =
     (if toolName = Str ''search_amazon'' then run_searchProducts rt (prop_opt toolArgs ''query'') w
      else if toolName = Str ''add_to_cart'' then run_addToCart rt toolArgs w
      else if toolName = Str ''view_cart'' then run_getCart rt w
      else if toolName = Str ''check_login'' then run_checkLoginStatus rt w
      else if toolName = Str ''save_session'' then
        (case run_saveSession rt w of
           (Inl e, w') \<Rightarrow> (Inl e, w')
         | (Inr _, w') \<Rightarrow> (Inr session_saved, w'))
      else (Inl (Error (''Unknown tool: '' @ to_string toolName)), w))"

text \<open>
  The branch \<^verbatim>\<open>tools/call\<close>. Reading \<^verbatim>\<open>params.name\<close> is outside the inner
  \<^verbatim>\<open>try\<close>, so a TypeError there leaves the branch; what the switch throws is caught
  and becomes a JSON-RPC error envelope.
\<close>

definition tools_call :: "'w runtime \<Rightarrow> jsval \<Rightarrow> 'w \<Rightarrow> (js_error + jsval) \<times> 'w" where
  "tools_call rt jsonrpcRequest w =
     (let params = prop_opt jsonrpcRequest ''params'' in
      case get_prop params ''name'' of
        Inl e \<Rightarrow> (Inl e, w)
      | Inr toolName \<Rightarrow>
          (let toolArgs = js_or (prop_opt params ''arguments'') (Obj []) in
           case call_tool rt toolName toolArgs w of
             (Inr toolResult, w') \<Rightarrow>
               (Inr (tool_result_response (stringify_pretty rt) (prop_opt jsonrpcRequest ''id'') toolResult), w')
           | (Inl err, w') \<Rightarrow>
               (Inr (tool_error_response (prop_opt jsonrpcRequest ''id'') err), w')))"

text \<open>The routing of a request to its response envelope.\<close>

definition route :: "'w runtime \<Rightarrow> jsval \<Rightarrow> 'w \<Rightarrow> (js_error + jsval) \<times> 'w" where
  "route rt jsonrpcRequest w =
     (let method = prop_opt jsonrpcRequest ''method'';
          rid = prop_opt jsonrpcRequest ''id''
      in if method = Str ''initialize'' then (Inr (initialize_response rid), w)
         else if method = Str ''tools/list'' then (Inr (tools_list_response rid), w)
         else if method = Str ''tools/call'' then tools_call rt jsonrpcRequest w
         else (Inr (method_not_found rid method), w))"

text \<open>\<^verbatim>\<open>isNotification\<close>, as the later snapshot computes it.\<close>

definition isNotification :: "jsval \<Rightarrow> js_error + bool" where
  "isNotification jsonrpcRequest = map_sum id Not (js_in ''id'' jsonrpcRequest)"

text \<open>
  The body of the outer \<^verbatim>\<open>try\<close>, for the connection the handler picked: what is
  answered (or thrown) and the state afterwards.
\<close>

definition message_try ::
  "'w runtime \<Rightarrow> jsval \<Rightarrow> SSEConnection \<Rightarrow> 'w server \<Rightarrow> (js_error + http_response) \<times> 'w server" where
  "message_try rt jsonrpcRequest connection s =
     (case isNotification jsonrpcRequest of
        Inl e \<Rightarrow> (Inl e, s)
      | Inr True \<Rightarrow> (Inr accepted, s)
      | Inr False \<Rightarrow>
          (case route rt jsonrpcRequest (world s) of
             (Inl e, w') \<Rightarrow> (Inl e, s\<lparr>world := w'\<rparr>)
           | (Inr response, w') \<Rightarrow>
               if \<not> writable (res connection)
               then (Inr (connection_closed jsonrpcRequest), s\<lparr>world := w'\<rparr>)
               else (Inr accepted,
                     s\<lparr>world := w',
                       activeConnections :=
                         on_res (sessionId connection)
                           (\<lambda>r. sendSSEMessage (stringify rt) r response) (activeConnections s)\<rparr>)))"

text \<open>
  \<^verbatim>\<open>app.post('/message')\<close> after the middleware (the later snapshot): shape
  validation, the choice of the connection, then the \<^verbatim>\<open>try\<close> with its \<^verbatim>\<open>catch\<close>.
\<close>

definition post_message :: "'w runtime \<Rightarrow> jsval \<Rightarrow> 'w server \<Rightarrow> http_response \<times> 'w server" where
  "post_message rt jsonrpcRequest s =
     (if \<not> truthy jsonrpcRequest \<or> \<not> truthy (prop_opt jsonrpcRequest ''method'')
      then (invalid_request, s)
      else case map_values (activeConnections s) of
             [] \<Rightarrow> (no_active_connection jsonrpcRequest, s)
           | connection # _ \<Rightarrow>
               (case message_try rt jsonrpcRequest connection s of
                  (Inl e, s') \<Rightarrow> (internal_error jsonrpcRequest, s')
                | (Inr r, s') \<Rightarrow> (r, s')))"

section \<open>The routes\<close>

datatype endpoint = Health | Sse | Message



text \<open>
  The handler the file registers for \<^verbatim>\<open>CallToolRequestSchema\<close> on the SDK server. Its
  switch is the one of the endpoint (\<open>call_tool\<close>; its \<^verbatim>\<open>args?.query\<close> is
  \<open>prop_opt\<close>), but what the switch throws becomes a result marked \<^verbatim>\<open>isError\<close>.
\<close>

definition CallToolRequest_handler :: "'w runtime \<Rightarrow> jsval \<Rightarrow> 'w \<Rightarrow> jsval \<times> 'w" where
  "CallToolRequest_handler rt request w =
     (let params = prop_opt request ''params'';
          name = prop_opt params ''name'';
          args = prop_opt params ''arguments''
      in case call_tool rt name args w of
           (Inr result, w') \<Rightarrow>
             (Obj [(''content'', Arr [Obj [(''type'', Str ''text''),
                                           (''text'', Str (stringify_pretty rt result))]])], w')
         | (Inl error, w') \<Rightarrow>
             (Obj [(''content'',
                    Arr [Obj [(''type'', Str ''text''),
                              (''text'', Str (stringify_pretty rt
                                 (Obj [(''success'', Bool False),
                                       (''error'', Str (error_text error))])))]]),
                   (''isError'', Bool True)], w'))"

section \<open>The credential store\<close>

text \<open>
  A cookie as Puppeteer hands it over and as the file stores it. \<open>expires\<close> is in
  seconds since the epoch, \<open>None\<close> when the property is missing. A JavaScript number
  is the real number it stands for; comparisons of such numbers are exact.
\<close>

datatype same_site = Strict | Lax | NoneSite

record cookie =
  name :: string
  cvalue :: string
  domain :: string
  path :: string
  expires :: "real option"
  httpOnly :: bool
  secure :: bool
  sameSite :: same_site

text \<open>
  What \<^verbatim>\<open>JSON.parse\<close> makes of the cookie file: it throws, or it gives something that
  has no \<^verbatim>\<open>filter\<close>, or it gives an array of cookie records.
\<close>

datatype file_content = Malformed | NotAnArray | CookieArray "cookie list"

text \<open>
  The file system as the store sees it: whether the file's directory can be written,
  and the cookie file if it exists.
\<close>

record fs_state =
  dir_writable :: bool
  cookies_file :: "file_content option"


text \<open>
  The two calls the store makes on a Puppeteer page, over any type \<open>'p\<close> of page
  states: each may throw.
\<close>

record 'p puppeteer =
  page_cookies :: "'p \<Rightarrow> js_error + cookie list"
  page_setCookie :: "cookie list \<Rightarrow> 'p \<Rightarrow> js_error option \<times> 'p"


text \<open>
  JavaScript computes \<^verbatim>\<open>/\<close> and \<^verbatim>\<open>+\<close> in double precision: the exact result is rounded
  to a double. The rounding is the parameter \<open>fl\<close> of the functions below, so that what
  is proved of them holds for the rounding of the machine and for exact arithmetic
  (\<open>fl\<close> the identity) alike. \<open>seconds\<close> is \<^verbatim>\<open>Date.now() / 1000\<close>, with \<open>now_ms\<close> for
  \<^verbatim>\<open>Date.now()\<close>.
\<close>

definition seconds :: "(real \<Rightarrow> real) \<Rightarrow> int \<Rightarrow> real" where
  "seconds fl now_ms = fl (real_of_int now_ms / 1000)"





text \<open>The \<^verbatim>\<open>filter\<close> of \<^verbatim>\<open>restoreAmazonSession\<close>; \<^verbatim>\<open>undefined > now\<close> is false.\<close>

definition validCookies :: "(real \<Rightarrow> real) \<Rightarrow> int \<Rightarrow> cookie list \<Rightarrow> cookie list" where
  "validCookies fl now_ms cookies =
     (let now = seconds fl now_ms
      in filter (\<lambda>c. case expires c of None \<Rightarrow> False | Some e \<Rightarrow> e > now) cookies)"

text \<open>
  \<^verbatim>\<open>restoreAmazonSession\<close>: the body of the \<^verbatim>\<open>try\<close> gives the returned boolean or
  what was thrown, and the page afterwards; the \<^verbatim>\<open>catch\<close> turns every thrown value
  into \<^verbatim>\<open>false\<close>. The result keeps the sum type, so that no exception leaving the
  function is a statement about it.
\<close>

definition restoreAmazonSession_try ::
  "'p puppeteer \<Rightarrow> (real \<Rightarrow> real) \<Rightarrow> int \<Rightarrow> 'p \<Rightarrow> fs_state \<Rightarrow> (js_error + bool) \<times> 'p" where
  "restoreAmazonSession_try pup fl now_ms page fs =
     (case cookies_file fs of
        None \<Rightarrow> (Inr False, page)
      | Some Malformed \<Rightarrow> (Inl (SyntaxError ''Unexpected token''), page)
      | Some NotAnArray \<Rightarrow> (Inl (TypeError ''cookies.filter is not a function''), page)
      | Some (CookieArray cookies) \<Rightarrow>
          (let valid = validCookies fl now_ms cookies
           in if length valid = 0 then (Inr False, page)
              else case page_setCookie pup valid page of
                     (Some e, page') \<Rightarrow> (Inl e, page')
                   | (None, page') \<Rightarrow> (Inr True, page')))"

definition restoreAmazonSession ::
  "'p puppeteer \<Rightarrow> (real \<Rightarrow> real) \<Rightarrow> int \<Rightarrow> 'p \<Rightarrow> fs_state \<Rightarrow> (js_error + bool) \<times> 'p" where
  "restoreAmazonSession pup fl now_ms page fs =
     (case restoreAmazonSession_try pup fl now_ms page fs of
        (Inl error, page') \<Rightarrow> (Inr False, page')
      | (Inr b, page') \<Rightarrow> (Inr b, page'))"

section \<open>The cart driver\<close>

record AddToCartParams =
  query :: "string option"
  asin :: "string option"
  quantity :: "int option"

record OperationResult =
  success :: bool
  message :: string
  data :: "jsval option"
  error :: "string option"

text \<open>
  A call on the browser page runs in the page's state \<open>'p\<close>, returns or throws, and
  leaves a state behind in both cases.
\<close>

type_synonym ('p, 'a) io = "'p \<Rightarrow> (js_error + 'a) \<times> 'p"

definition io_return :: "'a \<Rightarrow> ('p, 'a) io" where
  "io_return a p = (Inr a, p)"

definition io_throw :: "js_error \<Rightarrow> ('p, 'a) io" where
  "io_throw e p = (Inl e, p)"

definition io_bind :: "('p, 'a) io \<Rightarrow> ('a \<Rightarrow> ('p, 'b) io) \<Rightarrow> ('p, 'b) io" where
  "io_bind m f p = (case m p of (Inl e, p') \<Rightarrow> (Inl e, p') | (Inr a, p') \<Rightarrow> f a p')"

text \<open>
  The Puppeteer calls of \<^verbatim>\<open>addToCart\<close>. \<open>productTitle\<close> is the \<^verbatim>\<open>evaluate\<close> that reads
  the trimmed text of \<^verbatim>\<open>#productTitle\<close> (\<open>None\<close> without the element);
  \<open>find_element\<close> is \<^verbatim>\<open>page.$\<close> (whether it found an element) and \<open>click_element\<close>
  the click on the element found.
\<close>

record 'p browser =
  getPage :: "('p, unit) io"
  goto :: "string \<Rightarrow> ('p, unit) io"
  waitForSelector :: "string \<Rightarrow> nat option \<Rightarrow> ('p, unit) io"
  type_text :: "string \<Rightarrow> string \<Rightarrow> ('p, unit) io"
  click :: "string \<Rightarrow> ('p, unit) io"
  waitForNavigation :: "('p, unit) io"
  productTitle :: "('p, string option) io"
  select_option :: "string \<Rightarrow> string \<Rightarrow> ('p, unit) io"
  find_element :: "string \<Rightarrow> ('p, bool) io"
  click_element :: "('p, unit) io"

definition waitForElement :: "'p browser \<Rightarrow> string \<Rightarrow> nat \<Rightarrow> ('p, bool) io" where
  "waitForElement br selector timeout p =
     (case waitForSelector br selector (Some timeout) p of
        (Inl _, p') \<Rightarrow> (Inr False, p')
      | (Inr _, p') \<Rightarrow> (Inr True, p'))"

definition search_result_link :: string where
  \<open>search_result_link = ''[data-component-type="s-search-result"] h2 a''\<close>

definition confirmation_selector :: string where
  "confirmation_selector = ''#sw-atc-confirmation, #NATC_SMART_WAGON_CONF_MSG_SUCCESS''"

definition added_message :: "string \<Rightarrow> int \<Rightarrow> string" where
  \<open>added_message title qty = ''Added "'' @ title @ ''" to cart (quantity: '' @ show_int qty @ '')''\<close>

text \<open>The navigation to the product page: the \<^verbatim>\<open>if\<close> on \<^verbatim>\<open>params.asin\<close> and \<^verbatim>\<open>params.query\<close>.\<close>

definition navigate :: "'p browser \<Rightarrow> string \<Rightarrow> AddToCartParams \<Rightarrow> ('p, unit) io" where
  "navigate br BASE_URL params =
     (if str_truthy (asin params) then
        goto br (BASE_URL @ ''/dp/'' @ opt_to_string (asin params))
      else if str_truthy (query params) then
        io_bind (goto br BASE_URL) (\<lambda>_.
        io_bind (waitForSelector br ''#twotabsearchtextbox'' None) (\<lambda>_.
        io_bind (type_text br ''#twotabsearchtextbox'' (opt_to_string (query params))) (\<lambda>_.
        io_bind (click br ''#nav-search-submit-button'') (\<lambda>_.
        io_bind (waitForSelector br search_result_link None) (\<lambda>_.
        io_bind (click br search_result_link) (\<lambda>_.
        waitForNavigation br))))))
      else io_throw (Error ''Either query or asin must be provided''))"

text \<open>
  The body of the \<^verbatim>\<open>try\<close> of \<^verbatim>\<open>addToCart\<close>. \<open>BASE_URL\<close> is the constant of that name,
  built from the environment. The two-second sleep after a missing confirmation has
  no effect on the result.
\<close>

definition addToCart_try :: "'p browser \<Rightarrow> string \<Rightarrow> AddToCartParams \<Rightarrow> ('p, OperationResult) io" where
  "addToCart_try br BASE_URL params =
     io_bind (getPage br) (\<lambda>_.
       let qty = (case quantity params of None \<Rightarrow> 1 | Some q \<Rightarrow> if q \<noteq> 0 then q else 1) in
       io_bind (navigate br BASE_URL params) (\<lambda>_.
       io_bind (productTitle br) (\<lambda>t.
         let title = (if str_truthy t then opt_to_string t else ''Unknown Product'') in
         io_bind (if qty > 1
                  then io_bind (waitForElement br ''#quantity'' 5000) (\<lambda>quantityExists.
                         if quantityExists then select_option br ''#quantity'' (show_int qty)
                         else io_return ())
                  else io_return ()) (\<lambda>_.
         io_bind (find_element br ''#add-to-cart-button'') (\<lambda>addToCartButton.
           if \<not> addToCartButton then io_throw (Error ''Add to Cart button not found'')
           else
             io_bind (click_element br) (\<lambda>_.
             io_bind (waitForElement br confirmation_selector 3000) (\<lambda>confirmationExists.
             io_return \<lparr>success = True,
                        message = added_message title qty,
                        data = Some (Obj [(''title'', Str title), (''quantity'', Num qty)]),
                        error = None\<rparr>)))))))"

text \<open>\<^verbatim>\<open>addToCart\<close>: the \<^verbatim>\<open>catch\<close> turns what was thrown into a failed result.\<close>

definition addToCart :: "'p browser \<Rightarrow> string \<Rightarrow> AddToCartParams \<Rightarrow> 'p \<Rightarrow> OperationResult \<times> 'p" where
  "addToCart br BASE_URL params p =
     (case addToCart_try br BASE_URL params p of
        (Inl err, p') \<Rightarrow>
          (\<lparr>success = False,
            message = ''Failed to add item to cart'',
            data = None,
            error = Some (error_text err)\<rparr>, p')
      | (Inr r, p') \<Rightarrow> (r, p'))"

section \<open>Concrete inputs\<close>

text \<open>
  A runtime whose tools all succeed at once, a browser whose calls all succeed, and a
  page that is the list of its cookies; the examples below run the functions on them.
\<close>

definition demo_runtime :: "unit runtime" where
  "demo_runtime =
     \<lparr>stringify = to_string,
      stringify_pretty = to_string,
      run_searchProducts = (\<lambda>q w. (Inr (Obj [(''success'', Bool True)]), w)),
      run_addToCart = (\<lambda>a w. (Inr (Obj [(''success'', Bool True)]), w)),
      run_getCart = (\<lambda>w. (Inr (Obj [(''success'', Bool True)]), w)),
      run_checkLoginStatus = (\<lambda>w. (Inr (Obj [(''success'', Bool True)]), w)),
      run_saveSession = (\<lambda>w. (Inr (), w))\<rparr>"

definition calm_browser :: "unit browser" where
  "calm_browser =
     \<lparr>getPage = io_return (),
      goto = (\<lambda>url. io_return ()),
      waitForSelector = (\<lambda>sel t. io_return ()),
      type_text = (\<lambda>sel txt. io_return ()),
      click = (\<lambda>sel. io_return ()),
      waitForNavigation = io_return (),
      productTitle = io_return (Some ''USB cable''),
      select_option = (\<lambda>sel v. io_return ()),
      find_element = (\<lambda>sel. io_return True),
      click_element = io_return ()\<rparr>"

definition jar_puppeteer :: "(cookie list) puppeteer" where
  "jar_puppeteer =
     \<lparr>page_cookies = (\<lambda>jar. Inr jar),
      page_setCookie = (\<lambda>cs jar. (None, cs @ jar))\<rparr>"

definition anonymous_request :: "jsval \<Rightarrow> request" where
  "anonymous_request b =
     \<lparr>authorization = None, query_token = None, x_forwarded_proto = None,
      x_forwarded_host = None, host_header = Some ''localhost:3000'', body = b\<rparr>"

definition idle_server :: "unit server" where
  "idle_server = \<lparr>activeConnections = [], world = ()\<rparr>"


definition stale_cookie :: cookie where
  "stale_cookie =
     \<lparr>name = ''ubid-main'', cvalue = ''xyz'', domain = ''.amazon.com'', path = ''/'',
      expires = Some 1000, httpOnly = False, secure = True, sameSite = Lax\<rparr>"

definition empty_disk :: fs_state where
  "empty_disk = \<lparr>dir_writable = True, cookies_file = None\<rparr>"

definition list_tools_request :: jsval where
  "list_tools_request =
     Obj [(''jsonrpc'', Str ''2.0''), (''id'', Num 1), (''method'', Str ''tools/list'')]"

definition zero_id_request :: jsval where
  "zero_id_request =
     Obj [(''jsonrpc'', Str ''2.0''), (''id'', Num 0), (''method'', Str ''initialize'')]"

definition initialized_notification :: jsval where
  "initialized_notification =
     Obj [(''jsonrpc'', Str ''2.0''), (''method'', Str ''notifications/initialized'')]"

definition cancelled_notification :: jsval where
  "cancelled_notification =
     Obj [(''jsonrpc'', Str ''2.0''), (''method'', Str ''notifications/cancelled'')]"

definition unknown_tool_call :: jsval where
  "unknown_tool_call =
     Obj [(''jsonrpc'', Str ''2.0''), (''id'', Num 7), (''method'', Str ''tools/call''),
          (''params'', Obj [(''name'', Str ''does_not_exist''), (''arguments'', Obj [])])]"

definition opening_frames :: "string list" where
  "opening_frames =
     [connected_frame, endpoint_event_line, endpoint_data_line ''http://localhost:3000/message'']"

definition first_connection :: SSEConnection where
  "first_connection =
     \<lparr>res = \<lparr>writable = True, written = opening_frames\<rparr>, sessionId = ''session_A''\<rparr>"

definition second_connection :: SSEConnection where
  "second_connection =
     \<lparr>res = \<lparr>writable = True, written = opening_frames\<rparr>, sessionId = ''session_B''\<rparr>"

definition one_stream :: "unit server" where
  "one_stream = snd (sse_get ''session_A'' (anonymous_request Undefined) idle_server)"

definition two_streams :: "unit server" where
  "two_streams = snd (sse_get ''session_B'' (anonymous_request Undefined) one_stream)"



definition both_params :: AddToCartParams where
  "both_params = \<lparr>query = Some ''usb cable'', asin = Some ''B00TEST123'', quantity = None\<rparr>"

definition no_params :: AddToCartParams where
  "no_params = \<lparr>query = None, asin = None, quantity = None\<rparr>"

section \<open>Framing of delivered envelopes\<close>



text \<open>
  The message endpoint writes on a stream through \<^verbatim>\<open>sendSSEMessage\<close> only: after a
  POST, every open stream holds what it held before, or that followed by one message
  frame.
\<close>

lemma on_res_entry:
  "(k, c') \<in> set (on_res sid f m) \<Longrightarrow>
   \<exists>c. (k, c) \<in> set m \<and> (c' = c \<or> c' = c\<lparr>res := f (res c)\<rparr>)"
  by (auto simp: on_res_def split: if_splits)

lemma message_try_streams:
  assumes "(k, c') \<in> set (activeConnections (snd (message_try rt req conn s)))"
  shows "\<exists>c. (k, c) \<in> set (activeConnections s)
           \<and> (c' = c \<or> (\<exists>response. c' = c\<lparr>res := sendSSEMessage (stringify rt) (res c) response\<rparr>))"
  using assms
  by (auto simp: message_try_def split: sum.splits bool.splits prod.splits if_splits
      dest!: on_res_entry)

lemma post_message_state:
  "snd (post_message rt req s) = s
   \<or> (\<exists>conn. snd (post_message rt req s) = snd (message_try rt req conn s))"
proof (cases "\<not> truthy req \<or> \<not> truthy (prop_opt req ''method'')")
  case True
  then show ?thesis by (auto simp: post_message_def)
next
  case False
  show ?thesis
  proof (cases "map_values (activeConnections s)")
    case Nil
    with False show ?thesis by (simp add: post_message_def)
  next
    case (Cons conn rest)
    with False have "snd (post_message rt req s) = snd (message_try rt req conn s)"
      by (simp add: post_message_def split: prod.splits sum.splits)
    then show ?thesis by blast
  qed
qed

lemma post_message_streams:
  assumes "(k, c') \<in> set (activeConnections (snd (post_message rt req s)))"
  shows "\<exists>c. (k, c) \<in> set (activeConnections s)
           \<and> (written (res c') = written (res c)
               \<or> (\<exists>response. written (res c') = written (res c) @ [message_frame (stringify rt) response]))"
proof -
  have "\<exists>c. (k, c) \<in> set (activeConnections s)
           \<and> (c' = c \<or> (\<exists>response. c' = c\<lparr>res := sendSSEMessage (stringify rt) (res c) response\<rparr>))"
  proof (rule disjE[OF post_message_state[of rt req s]])
    assume "snd (post_message rt req s) = s"
    with assms show ?thesis by auto
  next
    assume "\<exists>conn. snd (post_message rt req s) = snd (message_try rt req conn s)"
    then obtain conn where "snd (post_message rt req s) = snd (message_try rt req conn s)"
      by blast
    with assms message_try_streams[of k c' rt req conn s] show ?thesis by simp
  qed
  then obtain c where c: "(k, c) \<in> set (activeConnections s)"
    and d: "c' = c \<or> (\<exists>response. c' = c\<lparr>res := sendSSEMessage (stringify rt) (res c) response\<rparr>)"
    by blast
  from d have "written (res c') = written (res c)
               \<or> (\<exists>response. written (res c') = written (res c) @ [message_frame (stringify rt) response])"
    by (auto simp: sendSSEMessage_def res_write_def)
  with c show ?thesis by blast
qed

section \<open>The message endpoint: shape, notifications and missing streams\<close>

lemma method_truthy_is_object:
  "truthy (prop_opt req ''method'') \<Longrightarrow> \<exists>kvs. req = Obj kvs"
  by (cases req) (simp_all add: prop_opt_def)

lemma method_truthy_truthy:
  "truthy (prop_opt req ''method'') \<Longrightarrow> truthy req"
  by (cases req) (simp_all add: prop_opt_def)

lemma prop_opt_id_envelope:
  "prop_opt (Obj ((''jsonrpc'', v) # (''id'', rid) # rest)) ''id'' = rid"
  by (simp add: prop_opt_def)

lemma tools_call_id:
  "tools_call rt req w = (Inr response, w') \<Longrightarrow> prop_opt response ''id'' = prop_opt req ''id''"
  by (auto simp: tools_call_def Let_def tool_result_response_def tool_error_response_def
      prop_opt_id_envelope split: sum.splits prod.splits)

lemma route_id:
  "route rt req w = (Inr response, w') \<Longrightarrow> prop_opt response ''id'' = prop_opt req ''id''"
  by (auto simp: route_def Let_def initialize_response_def tools_list_response_def
      method_not_found_def prop_opt_id_envelope tools_call_id split: if_splits)

lemma on_res_head:
  "sid \<notin> fst ` set others \<Longrightarrow>
   on_res sid f ((sid, c) # others) = (sid, c\<lparr>res := f (res c)\<rparr>) # others"
proof -
  assume a: "sid \<notin> fst ` set others"
  have "map (\<lambda>(k, c). if k = sid then (k, c\<lparr>res := f (res c)\<rparr>) else (k, c)) others = others"
    using a by (induction others) auto
  then show ?thesis by (simp add: on_res_def)
qed

lemma post_message_no_connection:
  assumes "truthy (prop_opt req ''method'')" and "activeConnections s = []"
  shows "post_message rt req s = (no_active_connection req, s)"
  using assms method_truthy_truthy[OF assms(1)]
  by (simp add: post_message_def map_values_def)

lemma post_message_open:
  assumes "truthy (prop_opt req ''method'')" and "activeConnections s = (sid, c) # others"
  shows "post_message rt req s =
          (case message_try rt req c s of
             (Inl e, s') \<Rightarrow> (internal_error req, s')
           | (Inr r, s') \<Rightarrow> (r, s'))"
  using assms method_truthy_truthy[OF assms(1)]
  by (simp add: post_message_def map_values_def)

lemma one_stream_connections:
  "activeConnections one_stream = [(''session_A'', first_connection)]"
  by (simp add: one_stream_def sse_get_def idle_server_def first_connection_def opening_frames_def
      res_write_def anonymous_request_def endpoint_url_def str_or_def str_truthy_def
      opt_to_string_def)

lemma two_streams_connections:
  "activeConnections two_streams =
     [(''session_A'', first_connection), (''session_B'', second_connection)]"
  by (simp add: two_streams_def sse_get_def one_stream_connections second_connection_def
      opening_frames_def res_write_def anonymous_request_def endpoint_url_def str_or_def
      str_truthy_def opt_to_string_def)

text \<open>
  Claim C3. A message that passes the shape validation (its \<^verbatim>\<open>method\<close> is truthy),
  posted while no stream is open, is answered at once with status 503 and the JSON-RPC
  error \<open>-32000\<close>, \<^verbatim>\<open>No active connection\<close>; nothing else happens to the server.
\<close>

theorem request_with_no_stream_is_503:
  assumes "truthy (prop_opt req ''method'')" and "activeConnections s = []"
  shows "post_message rt req s = (no_active_connection req, s)
         \<and> status (no_active_connection req) = 503
         \<and> payload (no_active_connection req) =
             Some (Obj [(''jsonrpc'', Str ''2.0''),
                        (''error'', Obj [(''code'', Num (- 32000)),
                                         (''message'', Str ''No active connection'')]),
                        (''id'', js_or (prop_opt req ''id'') Null)])"
  using post_message_no_connection[OF assms]
  by (simp add: no_active_connection_def)

theorem request_with_no_stream_is_503_witness:
  "truthy (prop_opt list_tools_request ''method'')
   \<and> activeConnections idle_server = []
   \<and> post_message demo_runtime list_tools_request idle_server
       = (no_active_connection list_tools_request, idle_server)
   \<and> status (fst (post_message demo_runtime list_tools_request idle_server)) = 503"
proof -
  have m: "truthy (prop_opt list_tools_request ''method'')"
    by (simp add: list_tools_request_def prop_opt_def)
  have e: "activeConnections idle_server = []"
    by (simp add: idle_server_def)
  from request_with_no_stream_is_503[OF m e, of demo_runtime] m e show ?thesis by simp
qed

text \<open>
  Claim C10. The handler looks for a connection before it tests for a notification: a
  message with a method and no \<^verbatim>\<open>id\<close> key, posted while no stream is open, gets the
  503 answer with \<^verbatim>\<open>id: null\<close>, not the 202 acknowledgment.
\<close>

theorem notification_with_no_stream_is_503:
  assumes "truthy (prop_opt req ''method'')"
      and "isNotification req = Inr True"
      and "activeConnections s = []"
  shows "post_message rt req s = (no_active_connection req, s)
         \<and> status (fst (post_message rt req s)) = 503
         \<and> fst (post_message rt req s) \<noteq> accepted
         \<and> payload (fst (post_message rt req s)) =
             Some (Obj [(''jsonrpc'', Str ''2.0''),
                        (''error'', Obj [(''code'', Num (- 32000)),
                                         (''message'', Str ''No active connection'')]),
                        (''id'', Null)])"
proof -
  obtain kvs where kvs: "req = Obj kvs"
    using method_truthy_is_object[OF assms(1)] by blast
  from assms(2) kvs have "''id'' \<notin> fst ` set kvs"
    by (simp add: isNotification_def)
  then have "map_of kvs ''id'' = None"
    by (simp add: map_of_eq_None_iff)
  then have noid: "prop_opt req ''id'' = Undefined"
    using kvs by (simp add: prop_opt_def)
  from post_message_no_connection[OF assms(1) assms(3), of rt] noid show ?thesis
    by (simp add: no_active_connection_def accepted_def js_or_def)
qed

theorem notification_with_no_stream_is_503_witness:
  "truthy (prop_opt initialized_notification ''method'')
   \<and> isNotification initialized_notification = Inr True
   \<and> activeConnections idle_server = []
   \<and> post_message demo_runtime initialized_notification idle_server
       = (no_active_connection initialized_notification, idle_server)
   \<and> status (fst (post_message demo_runtime initialized_notification idle_server)) = 503"
proof -
  have m: "truthy (prop_opt initialized_notification ''method'')"
    by (simp add: initialized_notification_def prop_opt_def)
  have n: "isNotification initialized_notification = Inr True"
    by (simp add: isNotification_def initialized_notification_def)
  have e: "activeConnections idle_server = []"
    by (simp add: idle_server_def)
  from notification_with_no_stream_is_503[OF m n e, of demo_runtime] m n e show ?thesis
    by (simp add: no_active_connection_def)
qed

text \<open>
  Claim C2, as stated, fails where no stream is open: the message below has a method and
  no \<^verbatim>\<open>id\<close> key, and the answer to its POST is 503, not 202.
\<close>

theorem notification_without_stream_not_acknowledged:
  "js_in ''id'' cancelled_notification = Inr False
   \<and> activeConnections idle_server = []
   \<and> status (fst (post_message demo_runtime cancelled_notification idle_server)) = 503
   \<and> status (fst (post_message demo_runtime cancelled_notification idle_server)) \<noteq> 202"
  by (simp add: cancelled_notification_def idle_server_def post_message_def prop_opt_def
      map_values_def no_active_connection_def)

text \<open>
  Claim C2, amended. For a message that passes the shape validation, posted while a
  stream is open: it is a notification exactly when it has no \<^verbatim>\<open>id\<close> key; a
  notification is acknowledged with 202 and the server's state, streams included, is
  unchanged; a message whose \<^verbatim>\<open>id\<close> is 0 is not a notification; and for a message that
  is not a notification, when the routing returns an envelope and the chosen stream is
  writable, the POST is acknowledged with 202 and exactly that envelope, carrying the
  request's id, is written as a message frame on the first stream of the map.
\<close>

theorem notification_iff_no_id_while_stream_open:
  assumes m: "truthy (prop_opt req ''method'')"
      and conns: "activeConnections s = (sid, c) # others"
      and key: "sessionId c = sid" "sid \<notin> fst ` set others"
  shows "(\<exists>kvs. req = Obj kvs \<and> isNotification req = Inr (''id'' \<notin> fst ` set kvs))
       \<and> (isNotification req = Inr True \<longrightarrow>
            post_message rt req s = (accepted, s) \<and> status accepted = 202)
       \<and> (prop_opt req ''id'' = Num 0 \<longrightarrow> isNotification req = Inr False)
       \<and> (isNotification req = Inr False \<longrightarrow>
            (\<forall>response w'. route rt req (world s) = (Inr response, w') \<and> writable (res c) \<longrightarrow>
               post_message rt req s =
                 (accepted,
                  s\<lparr>world := w',
                    activeConnections :=
                      (sid, c\<lparr>res := sendSSEMessage (stringify rt) (res c) response\<rparr>) # others\<rparr>)
               \<and> prop_opt response ''id'' = prop_opt req ''id''))"
proof -
  obtain kvs where kvs: "req = Obj kvs"
    using method_truthy_is_object[OF m] by blast
  have cls: "isNotification req = Inr (''id'' \<notin> fst ` set kvs)"
    using kvs by (simp add: isNotification_def)
  have ntf: "isNotification req = Inr True \<Longrightarrow> post_message rt req s = (accepted, s)"
    by (simp add: post_message_open[OF m conns] message_try_def)
  have zero: "prop_opt req ''id'' = Num 0 \<Longrightarrow> isNotification req = Inr False"
  proof -
    assume z: "prop_opt req ''id'' = Num 0"
    then have "map_of kvs ''id'' \<noteq> None"
      using kvs by (cases "map_of kvs ''id''") (simp_all add: prop_opt_def)
    then have "''id'' \<in> fst ` set kvs"
      by (simp add: map_of_eq_None_iff)
    then show ?thesis using cls by simp
  qed
  have deliver: "post_message rt req s =
        (accepted, s\<lparr>world := w',
            activeConnections := (sid, c\<lparr>res := sendSSEMessage (stringify rt) (res c) response\<rparr>) # others\<rparr>)
        \<and> prop_opt response ''id'' = prop_opt req ''id''"
    if "isNotification req = Inr False" and "route rt req (world s) = (Inr response, w')"
      and "writable (res c)" for response w'
    using that key conns
    by (simp add: post_message_open[OF m conns] message_try_def on_res_head route_id)
  show ?thesis
    using kvs cls ntf zero deliver by (simp add: accepted_def)
qed

theorem notification_iff_no_id_while_stream_open_witness:
  "truthy (prop_opt zero_id_request ''method'')
   \<and> truthy (prop_opt initialized_notification ''method'')
   \<and> activeConnections one_stream = (''session_A'', first_connection) # []
   \<and> sessionId first_connection = ''session_A''
   \<and> isNotification zero_id_request = Inr False
   \<and> post_message demo_runtime zero_id_request one_stream =
        (accepted,
         one_stream\<lparr>world := (),
           activeConnections :=
             [(''session_A'',
               first_connection\<lparr>res := sendSSEMessage (stringify demo_runtime) (res first_connection)
                                         (initialize_response (Num 0))\<rparr>)]\<rparr>)
   \<and> isNotification initialized_notification = Inr True
   \<and> post_message demo_runtime initialized_notification one_stream = (accepted, one_stream)"
proof -
  have m0: "truthy (prop_opt zero_id_request ''method'')"
    by (simp add: zero_id_request_def prop_opt_def)
  have m1: "truthy (prop_opt initialized_notification ''method'')"
    by (simp add: initialized_notification_def prop_opt_def)
  have k: "sessionId first_connection = ''session_A''"
    by (simp add: first_connection_def)
  have fresh: "''session_A'' \<notin> fst ` set ([] :: connections)"
    by simp
  have z: "prop_opt zero_id_request ''id'' = Num 0"
    by (simp add: zero_id_request_def prop_opt_def)
  have r: "route demo_runtime zero_id_request (world one_stream)
           = (Inr (initialize_response (Num 0)), ())"
    by (simp add: route_def zero_id_request_def prop_opt_def)
  have w: "writable (res first_connection)"
    by (simp add: first_connection_def)
  have n: "isNotification initialized_notification = Inr True"
    by (simp add: isNotification_def initialized_notification_def)
  note a = notification_iff_no_id_while_stream_open
             [OF m0 one_stream_connections k fresh, of demo_runtime]
  note b = notification_iff_no_id_while_stream_open
             [OF m1 one_stream_connections k fresh, of demo_runtime]
  from a z r w have "isNotification zero_id_request = Inr False
     \<and> post_message demo_runtime zero_id_request one_stream =
        (accepted,
         one_stream\<lparr>world := (),
           activeConnections :=
             [(''session_A'',
               first_connection\<lparr>res := sendSSEMessage (stringify demo_runtime) (res first_connection)
                                         (initialize_response (Num 0))\<rparr>)]\<rparr>)"
    by blast
  moreover from b n
  have "post_message demo_runtime initialized_notification one_stream = (accepted, one_stream)"
    by blast
  ultimately show ?thesis
    using m0 m1 k n one_stream_connections by simp
qed

section \<open>Which stream a response is written on\<close>

text \<open>
  Claim C1. Two streams are opened, \<^verbatim>\<open>session_A\<close> first and \<^verbatim>\<open>session_B\<close> second, and
  both stay open. The handler takes the first value of the map, which is the entry
  inserted first: the response to a request is written on the stream of
  \<^verbatim>\<open>session_A\<close>, and the stream of \<^verbatim>\<open>session_B\<close> receives nothing. After
  \<^verbatim>\<open>session_B\<close> closes, the response is written on the stream of \<^verbatim>\<open>session_A\<close> as
  well.
\<close>

theorem delivery_reaches_first_opened_stream:
  "activeConnections two_streams =
     [(''session_A'', first_connection), (''session_B'', second_connection)]
   \<and> post_message rt list_tools_request
        \<lparr>activeConnections = activeConnections two_streams, world = w\<rparr> =
     (accepted,
      \<lparr>activeConnections =
         [(''session_A'',
           first_connection\<lparr>res := sendSSEMessage (stringify rt) (res first_connection)
                                     (tools_list_response (Num 1))\<rparr>),
          (''session_B'', second_connection)],
       world = w\<rparr>)
   \<and> post_message rt list_tools_request
        (on_close ''session_B'' \<lparr>activeConnections = activeConnections two_streams, world = w\<rparr>) =
     (accepted,
      \<lparr>activeConnections =
         [(''session_A'',
           first_connection\<lparr>res := sendSSEMessage (stringify rt) (res first_connection)
                                     (tools_list_response (Num 1))\<rparr>)],
       world = w\<rparr>)"
  by (simp add: post_message_def two_streams_connections map_values_def list_tools_request_def
      prop_opt_def message_try_def isNotification_def route_def first_connection_def on_res_def
      on_close_def map_delete_def)

theorem delivery_reaches_first_opened_stream_witness:
  "truthy list_tools_request
   \<and> truthy (prop_opt list_tools_request ''method'')
   \<and> sessionId first_connection = ''session_A''
   \<and> sessionId second_connection = ''session_B''
   \<and> post_message demo_runtime list_tools_request
        \<lparr>activeConnections = activeConnections two_streams, world = ()\<rparr> =
     (accepted,
      \<lparr>activeConnections =
         [(''session_A'',
           first_connection\<lparr>res := sendSSEMessage to_string (res first_connection)
                                     (tools_list_response (Num 1))\<rparr>),
          (''session_B'', second_connection)],
       world = ()\<rparr>)"
proof -
  have m: "truthy list_tools_request" "truthy (prop_opt list_tools_request ''method'')"
    by (simp_all add: list_tools_request_def prop_opt_def)
  have k: "sessionId first_connection = ''session_A''" "sessionId second_connection = ''session_B''"
    by (simp_all add: first_connection_def second_connection_def)
  have ser: "stringify demo_runtime = to_string"
    by (simp add: demo_runtime_def)
  from delivery_reaches_first_opened_stream[of demo_runtime "()"]
  have "post_message demo_runtime list_tools_request
        \<lparr>activeConnections = activeConnections two_streams, world = ()\<rparr> =
     (accepted,
      \<lparr>activeConnections =
         [(''session_A'',
           first_connection\<lparr>res := sendSSEMessage (stringify demo_runtime) (res first_connection)
                                     (tools_list_response (Num 1))\<rparr>),
          (''session_B'', second_connection)],
       world = ()\<rparr>)"
    by blast
  with m k show ?thesis
    by (simp only: ser simp_thms)
qed

section \<open>A call of a tool that does not exist\<close>

text \<open>
  Claim C4. With one stream open, a \<^verbatim>\<open>tools/call\<close> request that names the tool
  \<^verbatim>\<open>does_not_exist\<close> is acknowledged with 202, and the frame written on the stream
  carries a JSON-RPC \<^verbatim>\<open>error\<close> member with the code \<open>-32603\<close> and no \<^verbatim>\<open>result\<close>.
\<close>

theorem unknown_tool_frame_is_jsonrpc_error:
  "post_message rt unknown_tool_call
     \<lparr>activeConnections = activeConnections one_stream, world = w\<rparr> =
     (accepted,
      \<lparr>activeConnections =
         [(''session_A'',
           first_connection\<lparr>res := sendSSEMessage (stringify rt) (res first_connection)
              (Obj [(''jsonrpc'', Str ''2.0''),
                    (''id'', Num 7),
                    (''error'', Obj [(''code'', Num (- 32603)),
                                     (''message'', Str ''Unknown tool: does_not_exist'')])])\<rparr>)],
       world = w\<rparr>)"
  by (simp add: post_message_def one_stream_connections map_values_def unknown_tool_call_def
      prop_opt_def message_try_def isNotification_def route_def tools_call_def call_tool_def
      js_or_def tool_error_response_def first_connection_def on_res_def)

theorem unknown_tool_frame_is_jsonrpc_error_witness:
  "truthy (prop_opt unknown_tool_call ''method'')
   \<and> prop_opt (prop_opt unknown_tool_call ''params'') ''name'' = Str ''does_not_exist''
   \<and> post_message demo_runtime unknown_tool_call
        \<lparr>activeConnections = activeConnections one_stream, world = ()\<rparr> =
     (accepted,
      \<lparr>activeConnections =
         [(''session_A'',
           first_connection\<lparr>res := sendSSEMessage to_string (res first_connection)
              (Obj [(''jsonrpc'', Str ''2.0''),
                    (''id'', Num 7),
                    (''error'', Obj [(''code'', Num (- 32603)),
                                     (''message'', Str ''Unknown tool: does_not_exist'')])])\<rparr>)],
       world = ()\<rparr>)"
proof -
  have m: "truthy (prop_opt unknown_tool_call ''method'')"
    "prop_opt (prop_opt unknown_tool_call ''params'') ''name'' = Str ''does_not_exist''"
    by (simp_all add: unknown_tool_call_def prop_opt_def)
  have ser: "stringify demo_runtime = to_string"
    by (simp add: demo_runtime_def)
  from unknown_tool_frame_is_jsonrpc_error[of demo_runtime "()"] m ser show ?thesis
    by simp
qed

text \<open>
  The handler registered for \<^verbatim>\<open>CallToolRequestSchema\<close> answers the same call with a
  result whose content reports the failure and whose \<^verbatim>\<open>isError\<close> is true.
\<close>

lemma registered_handler_marks_unknown_tool:
  "CallToolRequest_handler rt unknown_tool_call w =
     (Obj [(''content'',
            Arr [Obj [(''type'', Str ''text''),
                      (''text'', Str (stringify_pretty rt
                         (Obj [(''success'', Bool False),
                               (''error'', Str ''Unknown tool: does_not_exist'')])))]]),
           (''isError'', Bool True)], w)"
  by (simp add: CallToolRequest_handler_def unknown_tool_call_def prop_opt_def call_tool_def)

text \<open>The endpoint does so for every name outside the switch, not only for this one.\<close>

lemma unknown_tool_always_error_envelope:
  assumes "toolName \<notin> Str ` {''search_amazon'', ''add_to_cart'', ''view_cart'', ''check_login'',
                               ''save_session''}"
  shows "tools_call rt (Obj [(''jsonrpc'', Str ''2.0''), (''id'', rid), (''method'', Str ''tools/call''),
                             (''params'', Obj [(''name'', toolName)])]) w =
         (Inr (Obj [(''jsonrpc'', Str ''2.0''), (''id'', rid),
                    (''error'', Obj [(''code'', Num (- 32603)),
                                     (''message'', Str (''Unknown tool: '' @ to_string toolName))])]), w)"
  using assms
  by (simp add: tools_call_def prop_opt_def call_tool_def js_or_def tool_error_response_def)

section \<open>Authentication of the routes\<close>




section \<open>The credential store: saving and restoring\<close>






section \<open>The credential store: a file that cannot be used\<close>

text \<open>
  Claim C6. \<^verbatim>\<open>restoreAmazonSession\<close> returns a boolean for every file, page and
  Puppeteer behaviour: nothing thrown inside leaves the function. If the file is
  absent, or \<^verbatim>\<open>JSON.parse\<close> throws on it, or the parsed value is not an array, or
  every cookie in it has an expiry that is not after the current time, the function
  returns \<^verbatim>\<open>false\<close> and the page is left as it was.
\<close>

theorem restore_never_raises:
  "(\<exists>b page'. restoreAmazonSession pup fl now_ms page fs = (Inr b, page'))
   \<and> ((cookies_file fs = None
        \<or> cookies_file fs = Some Malformed
        \<or> cookies_file fs = Some NotAnArray
        \<or> (\<exists>cs. cookies_file fs = Some (CookieArray cs)
                 \<and> (\<forall>c \<in> set cs. \<forall>e. expires c = Some e \<longrightarrow> e \<le> seconds fl now_ms)))
       \<longrightarrow> restoreAmazonSession pup fl now_ms page fs = (Inr False, page))"
proof -
  have total: "\<exists>b page'. restoreAmazonSession pup fl now_ms page fs = (Inr b, page')"
    by (cases "restoreAmazonSession_try pup fl now_ms page fs")
       (auto simp: restoreAmazonSession_def split: sum.splits)
  have expired: "validCookies fl now_ms cs = []"
    if "\<forall>c \<in> set cs. \<forall>e. expires c = Some e \<longrightarrow> e \<le> seconds fl now_ms" for cs
    using that by (auto simp: validCookies_def filter_empty_conv split: option.splits)
  have zero: "restoreAmazonSession pup fl now_ms page fs = (Inr False, page)"
    if "cookies_file fs = None
        \<or> cookies_file fs = Some Malformed
        \<or> cookies_file fs = Some NotAnArray
        \<or> (\<exists>cs. cookies_file fs = Some (CookieArray cs)
                 \<and> (\<forall>c \<in> set cs. \<forall>e. expires c = Some e \<longrightarrow> e \<le> seconds fl now_ms))"
    using that expired
    by (auto simp: restoreAmazonSession_def restoreAmazonSession_try_def)
  from total zero show ?thesis by blast
qed

theorem restore_never_raises_witness:
  "cookies_file empty_disk = None
   \<and> restoreAmazonSession jar_puppeteer id 1700000000000 [] empty_disk = (Inr False, [])
   \<and> restoreAmazonSession jar_puppeteer id 1700000000000 []
        (empty_disk\<lparr>cookies_file := Some Malformed\<rparr>) = (Inr False, [])
   \<and> expires stale_cookie = Some 1000
   \<and> (1000 :: real) \<le> seconds id 1700000000000
   \<and> restoreAmazonSession jar_puppeteer id 1700000000000 []
        (empty_disk\<lparr>cookies_file := Some (CookieArray [stale_cookie])\<rparr>) = (Inr False, [])"
proof -
  have x: "expires stale_cookie = Some 1000" "(1000 :: real) \<le> seconds id 1700000000000"
    by (simp_all add: stale_cookie_def seconds_def)
  have a: "cookies_file empty_disk = None"
    by (simp add: empty_disk_def)
  have b: "cookies_file (empty_disk\<lparr>cookies_file := Some Malformed\<rparr>) = Some Malformed"
    by simp
  have c: "\<forall>c \<in> set [stale_cookie]. \<forall>e. expires c = Some e \<longrightarrow> e \<le> seconds id 1700000000000"
    by (simp add: stale_cookie_def seconds_def)
  have d: "cookies_file (empty_disk\<lparr>cookies_file := Some (CookieArray [stale_cookie])\<rparr>)
           = Some (CookieArray [stale_cookie])"
    by simp
  from restore_never_raises[of jar_puppeteer id 1700000000000 "[]" empty_disk] a
  have r1: "restoreAmazonSession jar_puppeteer id 1700000000000 [] empty_disk = (Inr False, [])"
    by blast
  from restore_never_raises[of jar_puppeteer id 1700000000000 "[]"
         "empty_disk\<lparr>cookies_file := Some Malformed\<rparr>"] b
  have r2: "restoreAmazonSession jar_puppeteer id 1700000000000 []
        (empty_disk\<lparr>cookies_file := Some Malformed\<rparr>) = (Inr False, [])"
    by blast
  from restore_never_raises[of jar_puppeteer id 1700000000000 "[]"
         "empty_disk\<lparr>cookies_file := Some (CookieArray [stale_cookie])\<rparr>"] c d
  have r3: "restoreAmazonSession jar_puppeteer id 1700000000000 []
        (empty_disk\<lparr>cookies_file := Some (CookieArray [stale_cookie])\<rparr>) = (Inr False, [])"
    by blast
  from a x r1 r2 r3 show ?thesis by blast
qed

section \<open>The cart driver: which parameters a call needs\<close>

lemma io_bind_InrE:
  assumes "io_bind m f p = (Inr r, p')"
  obtains a p1 where "m p = (Inr a, p1)" and "f a p1 = (Inr r, p')"
  using assms by (auto simp: io_bind_def split: prod.splits sum.splits)

lemma navigate_neither:
  "\<not> str_truthy (asin params) \<Longrightarrow> \<not> str_truthy (query params) \<Longrightarrow>
   navigate br base params p = (Inl (Error ''Either query or asin must be provided''), p)"
  by (simp add: navigate_def io_throw_def)

lemma navigate_asin_first:
  "str_truthy (asin params) \<Longrightarrow>
   navigate br base params = navigate br base (params\<lparr>query := None\<rparr>)"
  by (simp add: navigate_def)

lemma navigate_returns:
  "navigate br base params p = (Inr u, p') \<Longrightarrow> str_truthy (asin params) \<or> str_truthy (query params)"
  by (auto simp: navigate_def io_throw_def split: if_splits)

lemma addToCart_try_neither:
  assumes "\<not> str_truthy (asin params)" and "\<not> str_truthy (query params)"
  shows "\<exists>e p'. addToCart_try br base params p = (Inl e, p')
          \<and> (\<forall>p1. getPage br p = (Inr (), p1) \<longrightarrow>
                e = Error ''Either query or asin must be provided'' \<and> p' = p1)"
proof (cases "getPage br p")
  case (Pair x p1)
  show ?thesis
  proof (cases x)
    case (Inl e)
    with Pair show ?thesis by (simp add: addToCart_try_def io_bind_def)
  next
    case (Inr u)
    with Pair navigate_neither[OF assms, of br base p1] show ?thesis
      by (simp add: addToCart_try_def io_bind_def Let_def)
  qed
qed

lemma addToCart_try_returns:
  assumes "addToCart_try br base params p = (Inr r, p')"
  shows "success r
       \<and> (str_truthy (asin params) \<or> str_truthy (query params))
       \<and> (\<exists>title. data r = Some (Obj [(''title'', Str title),
                (''quantity'', Num (case quantity params of None \<Rightarrow> 1 | Some q \<Rightarrow> if q \<noteq> 0 then q else 1))]))"
  using assms
  by (auto simp: addToCart_try_def Let_def io_return_def io_throw_def
      elim!: io_bind_InrE dest: navigate_returns split: if_splits)

lemma addToCart_calm_both:
  "addToCart calm_browser ''https://www.amazon.com'' both_params () =
     (\<lparr>success = True,
       message = added_message ''USB cable'' 1,
       data = Some (Obj [(''title'', Str ''USB cable''), (''quantity'', Num 1)]),
       error = None\<rparr>, ())"
  by (simp add: addToCart_def addToCart_try_def calm_browser_def both_params_def io_bind_def
      io_return_def navigate_def str_truthy_def waitForElement_def opt_to_string_def Let_def)

text \<open>
  Claim C7, as stated, fails where both parameters are supplied: with an ASIN and a
  query, on a browser whose calls all succeed, \<^verbatim>\<open>addToCart\<close> succeeds and reports no
  error.
\<close>

theorem addToCart_accepts_both:
  "str_truthy (asin both_params)
   \<and> str_truthy (query both_params)
   \<and> success (fst (addToCart calm_browser ''https://www.amazon.com'' both_params ()))
   \<and> error (fst (addToCart calm_browser ''https://www.amazon.com'' both_params ())) = None"
  by (simp add: addToCart_calm_both) (simp add: both_params_def str_truthy_def)

text \<open>
  Claim C7, amended. At least one of \<^verbatim>\<open>asin\<close> and \<^verbatim>\<open>query\<close> must be supplied (and not
  empty): with neither, the call fails, and once the page is obtained the failure is
  the validation error \<^verbatim>\<open>Either query or asin must be provided\<close>. With an ASIN, the
  query is ignored: the call behaves as the call without the query. Every successful
  result carries \<^verbatim>\<open>{title, quantity}\<close>, the quantity being 1 when none (or zero) was
  given, and comes from a call that supplied an ASIN or a query.
\<close>

theorem addToCart_needs_asin_or_query:
  "(\<not> str_truthy (asin params) \<and> \<not> str_truthy (query params) \<longrightarrow>
      \<not> success (fst (addToCart br base params p))
      \<and> (\<forall>p1. getPage br p = (Inr (), p1) \<longrightarrow>
            addToCart br base params p =
              (\<lparr>success = False,
                message = ''Failed to add item to cart'',
                data = None,
                error = Some ''Either query or asin must be provided''\<rparr>, p1)))
   \<and> (str_truthy (asin params) \<longrightarrow>
        addToCart br base params p = addToCart br base (params\<lparr>query := None\<rparr>) p)
   \<and> (success (fst (addToCart br base params p)) \<longrightarrow>
        (str_truthy (asin params) \<or> str_truthy (query params))
        \<and> (\<exists>title. data (fst (addToCart br base params p)) =
              Some (Obj [(''title'', Str title),
                         (''quantity'', Num (case quantity params of
                                               None \<Rightarrow> 1
                                             | Some q \<Rightarrow> if q \<noteq> 0 then q else 1))])))"
proof -
  have neither: "\<not> success (fst (addToCart br base params p))
      \<and> (\<forall>p1. getPage br p = (Inr (), p1) \<longrightarrow>
            addToCart br base params p =
              (\<lparr>success = False,
                message = ''Failed to add item to cart'',
                data = None,
                error = Some ''Either query or asin must be provided''\<rparr>, p1))"
    if "\<not> str_truthy (asin params)" and "\<not> str_truthy (query params)"
  proof -
    from addToCart_try_neither[OF that, of br base p]
    obtain e p' where t: "addToCart_try br base params p = (Inl e, p')"
      and g: "\<forall>p1. getPage br p = (Inr (), p1) \<longrightarrow>
                e = Error ''Either query or asin must be provided'' \<and> p' = p1"
      by blast
    from t g show ?thesis by (auto simp: addToCart_def)
  qed
  have first: "addToCart br base params p = addToCart br base (params\<lparr>query := None\<rparr>) p"
    if "str_truthy (asin params)"
    using navigate_asin_first[OF that, of br base]
    by (simp add: addToCart_def addToCart_try_def)
  have ok: "(str_truthy (asin params) \<or> str_truthy (query params))
        \<and> (\<exists>title. data (fst (addToCart br base params p)) =
              Some (Obj [(''title'', Str title),
                         (''quantity'', Num (case quantity params of
                                               None \<Rightarrow> 1
                                             | Some q \<Rightarrow> if q \<noteq> 0 then q else 1))]))"
    if s: "success (fst (addToCart br base params p))"
  proof (cases "addToCart_try br base params p")
    case (Pair x p')
    show ?thesis
    proof (cases x)
      case (Inl e)
      with Pair s show ?thesis by (simp add: addToCart_def)
    next
      case (Inr r)
      with Pair addToCart_try_returns[of br base params p r p'] show ?thesis
        by (simp add: addToCart_def)
    qed
  qed
  from neither first ok show ?thesis by blast
qed

theorem addToCart_needs_asin_or_query_witness:
  "\<not> str_truthy (asin no_params) \<and> \<not> str_truthy (query no_params)
   \<and> getPage calm_browser () = (Inr (), ())
   \<and> addToCart calm_browser ''https://www.amazon.com'' no_params () =
        (\<lparr>success = False,
          message = ''Failed to add item to cart'',
          data = None,
          error = Some ''Either query or asin must be provided''\<rparr>, ())
   \<and> str_truthy (asin both_params)
   \<and> addToCart calm_browser ''https://www.amazon.com'' both_params ()
       = addToCart calm_browser ''https://www.amazon.com'' (both_params\<lparr>query := None\<rparr>) ()
   \<and> success (fst (addToCart calm_browser ''https://www.amazon.com'' both_params ()))
   \<and> (\<exists>title. data (fst (addToCart calm_browser ''https://www.amazon.com'' both_params ())) =
          Some (Obj [(''title'', Str title), (''quantity'', Num 1)]))"
proof -
  have n: "\<not> str_truthy (asin no_params)" "\<not> str_truthy (query no_params)"
    by (simp_all add: no_params_def str_truthy_def)
  have g: "getPage calm_browser () = (Inr (), ())"
    by (simp add: calm_browser_def io_return_def)
  have b: "str_truthy (asin both_params)"
    by (simp add: both_params_def str_truthy_def)
  have s: "success (fst (addToCart calm_browser ''https://www.amazon.com'' both_params ()))"
    by (simp add: addToCart_calm_both)
  have q: "quantity both_params = None"
    by (simp add: both_params_def)
  from addToCart_needs_asin_or_query[of no_params calm_browser "''https://www.amazon.com''" "()"] n g
  have r1: "addToCart calm_browser ''https://www.amazon.com'' no_params () =
        (\<lparr>success = False,
          message = ''Failed to add item to cart'',
          data = None,
          error = Some ''Either query or asin must be provided''\<rparr>, ())"
    by blast
  from addToCart_needs_asin_or_query[of both_params calm_browser "''https://www.amazon.com''" "()"] b
  have r2: "addToCart calm_browser ''https://www.amazon.com'' both_params ()
       = addToCart calm_browser ''https://www.amazon.com'' (both_params\<lparr>query := None\<rparr>) ()"
    by blast
  from addToCart_needs_asin_or_query[of both_params calm_browser "''https://www.amazon.com''" "()"] s q
  have r3: "\<exists>title. data (fst (addToCart calm_browser ''https://www.amazon.com'' both_params ())) =
          Some (Obj [(''title'', Str title), (''quantity'', Num 1)])"
    by simp
  from n g b s r1 r2 r3 show ?thesis by blast
qed

end
